theory Spec2Isabelle
  imports Complex_Main "HOL-Library.Word" "HOL-Library.Signed_Division"
begin

unbundle bit_operations_syntax

section \<open>NAU7802.h: error codes, registers, bits\<close>

type_synonym error_code_t = int

definition NAU7802_OK :: error_code_t where "NAU7802_OK = 0"
definition NAU7802_I2C_DATA_TOO_BIG_ERROR :: error_code_t where "NAU7802_I2C_DATA_TOO_BIG_ERROR = - 1"
definition NAU7802_I2C_NACK_ADDR_ERROR :: error_code_t where "NAU7802_I2C_NACK_ADDR_ERROR = - 2"
definition NAU7802_I2C_NACK_DATA_ERROR :: error_code_t where "NAU7802_I2C_NACK_DATA_ERROR = - 3"
definition NAU7802_I2C_ERROR :: error_code_t where "NAU7802_I2C_ERROR = - 4"
definition NAU7802_I2C_NO_DATA_ERROR :: error_code_t where "NAU7802_I2C_NO_DATA_ERROR = - 5"
definition NAU7802_TIMEOUT_ERROR :: error_code_t where "NAU7802_TIMEOUT_ERROR = - 6"
definition NAU7802_POWER_UP_ERROR :: error_code_t where "NAU7802_POWER_UP_ERROR = - 7"
definition NAU7802_CAL_AFE_ERROR :: error_code_t where "NAU7802_CAL_AFE_ERROR = - 8"

lemmas error_code_defs =
  NAU7802_OK_def NAU7802_I2C_DATA_TOO_BIG_ERROR_def NAU7802_I2C_NACK_ADDR_ERROR_def
  NAU7802_I2C_NACK_DATA_ERROR_def NAU7802_I2C_ERROR_def NAU7802_I2C_NO_DATA_ERROR_def
  NAU7802_TIMEOUT_ERROR_def NAU7802_POWER_UP_ERROR_def NAU7802_CAL_AFE_ERROR_def

text \<open>The enum \<open>NAU7802_Cal_Status\<close>. \<open>calAFEStatus\<close> also returns plain error codes
  through this type, so a status is carried as the integer it is.\<close>

definition NAU7802_CAL_SUCCESS :: int where "NAU7802_CAL_SUCCESS = 0"
definition NAU7802_CAL_IN_PROGRESS :: int where "NAU7802_CAL_IN_PROGRESS = 1"
definition NAU7802_CAL_FAILURE :: int where "NAU7802_CAL_FAILURE = 2"

lemmas cal_status_defs =
  NAU7802_CAL_SUCCESS_def NAU7802_CAL_IN_PROGRESS_def NAU7802_CAL_FAILURE_def

definition NAU7802_PU_CTRL :: "8 word" where "NAU7802_PU_CTRL = 0x00"
definition NAU7802_CTRL1 :: "8 word" where "NAU7802_CTRL1 = 0x01"
definition NAU7802_CTRL2 :: "8 word" where "NAU7802_CTRL2 = 0x02"
definition NAU7802_ADCO_B2 :: "8 word" where "NAU7802_ADCO_B2 = 0x12"

definition NAU7802_PU_CTRL_CR :: "8 word" where "NAU7802_PU_CTRL_CR = 5"
definition NAU7802_CTRL2_CALS :: "8 word" where "NAU7802_CTRL2_CALS = 2"
definition NAU7802_CTRL2_CAL_ERROR :: "8 word" where "NAU7802_CTRL2_CAL_ERROR = 3"


lemmas register_defs =
  NAU7802_PU_CTRL_def NAU7802_CTRL1_def NAU7802_CTRL2_def NAU7802_ADCO_B2_def
  NAU7802_PU_CTRL_CR_def NAU7802_CTRL2_CALS_def NAU7802_CTRL2_CAL_ERROR_def

section \<open>The environment: the Wire bus, the device behind it, and the millisecond clock\<close>

text \<open>
  The driver talks to hardware it does not control, so the environment is a record of
  what the hardware will answer, together with the little state the Wire library keeps:
  \<^item> \<open>acks w k\<close> is what the \<open>k\<close>-th call of \<open>endTransmission\<close> returns (0 success,
    1 data too long, 2 NACK on address, 3 NACK on data, 4 other error);
  \<^item> \<open>dev w k a\<close> is the content of device register \<open>a\<close> when the \<open>k\<close>-th
    \<open>requestFrom\<close> is served, and \<open>rxlen w k\<close> the number of bytes the device delivers
    then; the device reads from its register pointer \<open>ptr\<close> and auto-increments;
  \<^item> \<open>clock w k\<close> is what the \<open>k\<close>-th call of \<open>millis\<close> returns (an unsigned 32-bit
    count of milliseconds);
  \<^item> \<open>ntx\<close>, \<open>nrx\<close>, \<open>nclk\<close> count the calls made so far, \<open>slept\<close> adds up the
    \<open>delay\<close>s, \<open>txbuf\<close>/\<open>rxbuf\<close> are the Wire buffers and \<open>txlog\<close> the frames put on
    the bus.
\<close>

record world =
  acks :: "nat \<Rightarrow> 8 word"
  dev :: "nat \<Rightarrow> 8 word \<Rightarrow> 8 word"
  rxlen :: "nat \<Rightarrow> nat"
  clock :: "nat \<Rightarrow> 32 word"
  ntx :: nat
  nrx :: nat
  nclk :: nat
  slept :: nat
  ptr :: "8 word"
  txbuf :: "8 word list"
  rxbuf :: "8 word list"
  txlog :: "8 word list list"

definition beginTransmission :: "world \<Rightarrow> world" where
  "beginTransmission w = w\<lparr>txbuf := []\<rparr>"

definition wire_write :: "8 word \<Rightarrow> world \<Rightarrow> world" where
  "wire_write b w = w\<lparr>txbuf := txbuf w @ [b]\<rparr>"

definition endTransmission :: "world \<Rightarrow> 8 word \<times> world" where
  "endTransmission w =
     (let r = acks w (ntx w)
      in (r, w\<lparr>ntx := Suc (ntx w),
                ptr := (case txbuf w of a # _ \<Rightarrow> if r = 0 then a else ptr w | [] \<Rightarrow> ptr w),
                txlog := txlog w @ [txbuf w]\<rparr>))"

definition requestFrom :: "nat \<Rightarrow> world \<Rightarrow> world" where
  "requestFrom quantity w =
     w\<lparr>nrx := Suc (nrx w),
       rxbuf := take (min quantity (rxlen w (nrx w)))
                  (map (\<lambda>i. dev w (nrx w) (ptr w + of_nat i)) [0..<quantity])\<rparr>"

definition available_bytes :: "world \<Rightarrow> nat" where
  "available_bytes w = length (rxbuf w)"

text \<open>\<open>TwoWire::read\<close> returns an \<open>int\<close>: the next byte, or -1 when the buffer is empty.\<close>

definition wire_read :: "world \<Rightarrow> int \<times> world" where
  "wire_read w = (case rxbuf w of [] \<Rightarrow> (- 1, w) | b # bs \<Rightarrow> (uint b, w\<lparr>rxbuf := bs\<rparr>))"

definition millis :: "world \<Rightarrow> 32 word \<times> world" where
  "millis w = (clock w (nclk w), w\<lparr>nclk := Suc (nclk w)\<rparr>)"

definition delay :: "nat \<Rightarrow> world \<Rightarrow> world" where
  "delay ms w = w\<lparr>slept := slept w + ms\<rparr>"

section \<open>NAU7802.cpp: register transport\<close>

text \<open>
  \<open>i2c_write\<close>: \<open>int tries = 3; while (tries) { ... }\<close>. The loop counts \<open>tries\<close>
  down, so it is structural recursion on it; \<open>ret\<close> is the last result of
  \<open>endTransmission\<close>. A \<open>NULL\<close> value pointer is \<open>None\<close>.
\<close>

fun i2c_write_loop :: "nat \<Rightarrow> 8 word \<Rightarrow> 8 word \<Rightarrow> 8 word option \<Rightarrow> world \<Rightarrow> 8 word \<times> world" where
  "i2c_write_loop 0 ret registerAddress val w = (ret, w)"
| "i2c_write_loop (Suc tries) ret registerAddress val w =
     (let w1 = beginTransmission w;
          w2 = wire_write registerAddress w1;
          w3 = (case val of None \<Rightarrow> w2 | Some v \<Rightarrow> wire_write v w2)
      in case endTransmission w3 of (r, w4) \<Rightarrow>
           if r = 1 \<or> r = 2
           then i2c_write_loop tries r registerAddress val w4
           else (r, w4))"

text \<open>\<open>ret\<close> is uninitialised before the first pass; with \<open>tries = 3\<close> it is always
  assigned before it is returned, so its start value is immaterial.\<close>

definition i2c_write :: "8 word \<Rightarrow> 8 word option \<Rightarrow> world \<Rightarrow> 8 word \<times> world" where
  "i2c_write registerAddress val w = i2c_write_loop 3 0 registerAddress val w"

text \<open>The four tests \<open>ret == 1 .. ret == 4\<close> shared by \<open>getRegister\<close>,
  \<open>setRegister\<close> and \<open>getReading\<close>; \<open>None\<close> when none of them fires.\<close>

definition ret_error :: "8 word \<Rightarrow> error_code_t option" where
  "ret_error ret =
     (if ret = 1 then Some NAU7802_I2C_DATA_TOO_BIG_ERROR
      else if ret = 2 then Some NAU7802_I2C_NACK_ADDR_ERROR
      else if ret = 3 then Some NAU7802_I2C_NACK_DATA_ERROR
      else if ret = 4 then Some NAU7802_I2C_ERROR
      else None)"

text \<open>A function with an out-parameter returns \<open>Inl err\<close> for a non-zero error code
  (the out-parameter is then not written) and \<open>Inr v\<close> for \<open>NAU7802_OK\<close> with the
  value written.\<close>

definition getRegister :: "8 word \<Rightarrow> world \<Rightarrow> (error_code_t + 8 word) \<times> world" where
  "getRegister registerAddress w =
     (case i2c_write registerAddress None w of (ret, w1) \<Rightarrow>
        (case ret_error ret of
           Some e \<Rightarrow> (Inl e, w1)
         | None \<Rightarrow>
             (let w2 = requestFrom 1 w1
              in if available_bytes w2 \<noteq> 0
                 then (case wire_read w2 of (b, w3) \<Rightarrow> (Inr (word_of_int b), w3))
                 else (Inl NAU7802_I2C_NO_DATA_ERROR, w2))))"

definition setRegister :: "8 word \<Rightarrow> 8 word \<Rightarrow> world \<Rightarrow> error_code_t \<times> world" where
  "setRegister registerAddress val w =
     (case i2c_write registerAddress (Some val) w of (ret, w1) \<Rightarrow>
        (case ret_error ret of Some e \<Rightarrow> (e, w1) | None \<Rightarrow> (NAU7802_OK, w1)))"

text \<open>\<open>1 << bitNumber\<close> is an \<open>int\<close>, and the result is stored in a \<open>uint8_t\<close>.\<close>

definition bit_mask :: "8 word \<Rightarrow> 8 word" where
  "bit_mask bitNumber = push_bit (unat bitNumber) 1"

definition setBit :: "8 word \<Rightarrow> 8 word \<Rightarrow> world \<Rightarrow> error_code_t \<times> world" where
  "setBit bitNumber registerAddress w =
     (case getRegister registerAddress w of
        (Inl err, w1) \<Rightarrow> (err, w1)
      | (Inr v, w1) \<Rightarrow> setRegister registerAddress (v OR bit_mask bitNumber) w1)"

definition clearBit :: "8 word \<Rightarrow> 8 word \<Rightarrow> world \<Rightarrow> error_code_t \<times> world" where
  "clearBit bitNumber registerAddress w =
     (case getRegister registerAddress w of
        (Inl err, w1) \<Rightarrow> (err, w1)
      | (Inr v, w1) \<Rightarrow> setRegister registerAddress (v AND NOT (bit_mask bitNumber)) w1)"

definition getBit :: "8 word \<Rightarrow> 8 word \<Rightarrow> world \<Rightarrow> (error_code_t + 8 word) \<times> world" where
  "getBit bitNumber registerAddress w =
     (case getRegister registerAddress w of
        (Inl err, w1) \<Rightarrow> (Inl err, w1)
      | (Inr v, w1) \<Rightarrow> (Inr (v AND bit_mask bitNumber), w1))"


section \<open>NAU7802.cpp: analog front end calibration\<close>

definition available :: "world \<Rightarrow> (error_code_t + bool) \<times> world" where
  "available w =
     (case getBit NAU7802_PU_CTRL_CR NAU7802_PU_CTRL w of
        (Inl err, w1) \<Rightarrow> (Inl err, w1)
      | (Inr v, w1) \<Rightarrow> (Inr (v \<noteq> 0), w1))"

definition beginCalibrateAFE :: "world \<Rightarrow> error_code_t \<times> world" where
  "beginCalibrateAFE w = setBit NAU7802_CTRL2_CALS NAU7802_CTRL2 w"

text \<open>\<open>calAFEStatus\<close> returns \<open>err\<close> itself when a \<open>getBit\<close> fails: the error code
  travels in the status, with its value.\<close>

definition calAFEStatus :: "world \<Rightarrow> int \<times> world" where
  "calAFEStatus w =
     (case getBit NAU7802_CTRL2_CALS NAU7802_CTRL2 w of
        (Inl err, w1) \<Rightarrow> (err, w1)
      | (Inr v, w1) \<Rightarrow>
          if v \<noteq> 0 then (NAU7802_CAL_IN_PROGRESS, w1)
          else (case getBit NAU7802_CTRL2_CAL_ERROR NAU7802_CTRL2 w1 of
                  (Inl err, w2) \<Rightarrow> (err, w2)
                | (Inr v2, w2) \<Rightarrow>
                    if v2 \<noteq> 0 then (NAU7802_CAL_FAILURE, w2)
                    else (NAU7802_CAL_SUCCESS, w2)))"

text \<open>
  The \<open>while\<close> loop of \<open>waitForCalibrateAFE\<close>. It may run forever, so it is a
  partial function: \<open>None\<close> means that the call never returns. \<open>&&\<close> short-circuits,
  so \<open>millis\<close> is read only when \<open>timeout_ms > 0\<close>.
\<close>

partial_function (option) waitForCalibrateAFE_loop ::
  "32 word \<Rightarrow> 32 word \<Rightarrow> world \<Rightarrow> (error_code_t \<times> world) option" where
  "waitForCalibrateAFE_loop begin_ms timeout_ms w =
     (case calAFEStatus w of (cal_status, w1) \<Rightarrow>
        if cal_status = NAU7802_CAL_IN_PROGRESS
        then (if timeout_ms > 0
              then (case millis w1 of (now, w2) \<Rightarrow>
                      if now - begin_ms > timeout_ms
                      then Some (NAU7802_CAL_AFE_ERROR, w2)
                      else waitForCalibrateAFE_loop begin_ms timeout_ms (delay 1 w2))
              else waitForCalibrateAFE_loop begin_ms timeout_ms (delay 1 w1))
        else Some (NAU7802_OK, w1))"

definition waitForCalibrateAFE :: "32 word \<Rightarrow> world \<Rightarrow> (error_code_t \<times> world) option" where
  "waitForCalibrateAFE timeout_ms w =
     (case millis w of (begin_ms, w0) \<Rightarrow> waitForCalibrateAFE_loop begin_ms timeout_ms w0)"

definition calibrateAFE :: "world \<Rightarrow> (error_code_t \<times> world) option" where
  "calibrateAFE w =
     (case beginCalibrateAFE w of (err, w1) \<Rightarrow>
        if err \<noteq> 0 then Some (err, w1) else waitForCalibrateAFE 1000 w1)"

section \<open>NAU7802.cpp: readings\<close>

text \<open>
  The decoding in \<open>getReading\<close>. Each argument is what one \<open>read()\<close> returned, an
  \<open>int\<close> cast to \<open>uint32_t\<close>; \<open>valueRaw << 8\<close> is cast to \<open>int32_t\<close> and shifted
  back with the arithmetic right shift.
\<close>

definition decode_reading :: "int \<Rightarrow> int \<Rightarrow> int \<Rightarrow> 32 word" where
  "decode_reading msb midsb lsb =
     (let valueRaw = push_bit 16 (word_of_int msb) OR push_bit 8 (word_of_int midsb)
                       OR word_of_int lsb;
          valueShifted = push_bit 8 valueRaw
      in signed_drop_bit 8 valueShifted)"

definition getReading :: "world \<Rightarrow> (error_code_t + 32 word) \<times> world" where
  "getReading w =
     (case i2c_write NAU7802_ADCO_B2 None w of (ret, w1) \<Rightarrow>
        (case ret_error ret of
           Some e \<Rightarrow> (Inl e, w1)
         | None \<Rightarrow>
             (let w2 = requestFrom 3 w1
              in if available_bytes w2 \<noteq> 0
                 then (case wire_read w2 of (msb, w3) \<Rightarrow>
                       case wire_read w3 of (midsb, w4) \<Rightarrow>
                       case wire_read w4 of (lsb, w5) \<Rightarrow>
                         (Inr (decode_reading msb midsb lsb), w5))
                 else (Inl NAU7802_I2C_NO_DATA_ERROR, w2))))"

text \<open>
  The \<open>while\<close> loop of \<open>getAverageReading\<close>, again a partial function. It returns
  \<open>Inl err\<close> where the source returns \<open>err\<close> from inside the loop and \<open>Inr total\<close>
  where the loop is left normally. One pass asks \<open>available\<close>, takes a reading when
  one is ready, and then tests the clock. \<open>total_sum\<close> is the \<open>long total\<close> of the
  source (32 bits on the Arduino targets) and \<open>samplesAquired\<close> a \<open>uint8_t\<close>.
\<close>

partial_function (option) getAverageReading_loop ::
  "8 word \<Rightarrow> 32 word \<Rightarrow> 32 word \<Rightarrow> 32 word \<Rightarrow> 8 word \<Rightarrow> world
     \<Rightarrow> ((error_code_t + 32 word) \<times> world) option" where
  "getAverageReading_loop average_size timeout startTime total_sum samplesAquired w =
     (if samplesAquired < average_size
      then (case available w of
              (Inl err, w1) \<Rightarrow> Some (Inl err, w1)
            | (Inr ready, w1) \<Rightarrow>
                (case (if ready
                       then (case getReading w1 of
                               (Inl err, w2) \<Rightarrow> Inl (err, w2)
                             | (Inr v, w2) \<Rightarrow> Inr (total_sum + v, samplesAquired + 1, w2))
                       else Inr (total_sum, samplesAquired, w1)) of
                   Inl (err, w2) \<Rightarrow> Some (Inl err, w2)
                 | Inr (total_sum', samplesAquired', w2) \<Rightarrow>
                     (case millis w2 of (now, w3) \<Rightarrow>
                        if now - startTime > timeout
                        then Some (Inl NAU7802_TIMEOUT_ERROR, w3)
                        else getAverageReading_loop average_size timeout startTime
                               total_sum' samplesAquired' w3)))
      else Some (Inr total_sum, w))"

text \<open>
  What a call of \<open>getAverageReading\<close> ends in: an error code, \<open>NAU7802_OK\<close> with the
  average written, or the division \<open>total / average_size\<close> executed with divisor zero,
  which C++ leaves undefined.
\<close>

datatype avg_result = Avg_Error error_code_t | Avg_OK "32 word" | Avg_Division_By_Zero

text \<open>\<open>timeout = average_size * 13\<close> (the source: "Hard-coded for 80 hz rate for now");
  \<open>total / average_size\<close> is the signed division of C, truncating towards zero.\<close>

definition getAverageReading :: "8 word \<Rightarrow> world \<Rightarrow> (avg_result \<times> world) option" where
  "getAverageReading average_size w =
     (let timeout = (ucast average_size :: 32 word) * 13
      in case millis w of (startTime, w0) \<Rightarrow>
           (case getAverageReading_loop average_size timeout startTime 0 0 w0 of
              None \<Rightarrow> None
            | Some (Inl err, w1) \<Rightarrow> Some (Avg_Error err, w1)
            | Some (Inr total_sum, w1) \<Rightarrow>
                if average_size = 0 then Some (Avg_Division_By_Zero, w1)
                else Some (Avg_OK (word_of_int (sint total_sum sdiv uint average_size)), w1)))"

section \<open>Floating point and the EEPROM\<close>

text \<open>
  A \<open>float\<close> is kept as its IEEE 754 binary32 bit pattern, which is what the EEPROM
  stores; \<open>float_val\<close> reads the pattern. Rounding is not modelled: a comparison is made
  on the reals where that agrees with binary32, and a quotient is given a value only where
  it is exact.
\<close>

datatype cfloat = Fin real | PInf | NInf | NaN

definition float_val :: "32 word \<Rightarrow> cfloat" where
  "float_val f =
     (let e = unat (take_bit 8 (drop_bit 23 f));
          m = unat (take_bit 23 f);
          s = (if bit f 31 then - 1 else 1 :: real)
      in if e = 255 then (if m = 0 then (if bit f 31 then NInf else PInf) else NaN)
         else if e = 0 then Fin (s * real m / 2 ^ 149)
         else if e \<ge> 150 then Fin (s * real (2 ^ 23 + m) * 2 ^ (e - 150))
         else Fin (s * real (2 ^ 23 + m) / 2 ^ (150 - e)))"

definition float_one :: "32 word" where "float_one = 0x3F800000"

definition isnan :: "32 word \<Rightarrow> bool" where
  "isnan f = (float_val f = NaN)"

text \<open>\<open>f == 0xFFFFFFFF\<close> on a \<open>float\<close>: the integer constant is converted to \<open>float\<close>,
  which rounds 4294967295 to 2^32.\<close>

definition float_eq_ffffffff :: "32 word \<Rightarrow> bool" where
  "float_eq_ffffffff f = (float_val f = Fin 4294967296)"

text \<open>\<open>(f - 1.0) < 0.001\<close>. The constant is taken as 1/1000: between 1.001 and what
  0.001 rounds to, in binary32 or in binary64, there is no binary32 number \<open>f\<close>, and
  \<open>f - 1.0\<close> is exact for \<open>f\<close> between 0.5 and 2.\<close>

definition float_minus_one_less :: "32 word \<Rightarrow> bool" where
  "float_minus_one_less f =
     (case float_val f of
        Fin x \<Rightarrow> x - 1 < 1 / 1000
      | PInf \<Rightarrow> False
      | NInf \<Rightarrow> True
      | NaN \<Rightarrow> False)"

text \<open>
  \<open>n / f\<close> for an \<open>int32_t\<close> \<open>n\<close> and a \<open>float\<close> \<open>f\<close>: \<open>n\<close> is converted to
  \<open>float\<close> and divided. The result is \<open>Inr v\<close> where it is determined without
  rounding: the divisor is a NaN, an infinity or a zero, or \<open>n\<close> and the quotient are
  integers of magnitude at most 2^24, which are binary32 numbers, so that the conversion and
  the division are exact. Otherwise it is \<open>Inl q\<close>: the code yields the exact quotient
  \<open>q\<close> rounded to binary32 (an infinity when it overflows), a value this development
  does not compute.
\<close>

definition int_div_float :: "int \<Rightarrow> 32 word \<Rightarrow> real + cfloat" where
  "int_div_float n f =
     (case float_val f of
        NaN \<Rightarrow> Inr NaN
      | PInf \<Rightarrow> Inr (Fin 0)
      | NInf \<Rightarrow> Inr (Fin 0)
      | Fin d \<Rightarrow>
          if d = 0
          then Inr (if n = 0 then NaN else if (n < 0) = bit f 31 then PInf else NInf)
          else if \<bar>n\<bar> \<le> 16777216 \<and> real_of_int n / d \<in> \<int>
                  \<and> \<bar>real_of_int n / d\<bar> \<le> 16777216
          then Inr (Fin (real_of_int n / d))
          else Inl (real_of_int n / d))"

text \<open>
  The EEPROM is an array of bytes. \<open>EEPROM.get\<close> and \<open>EEPROM.put\<close> copy the
  \<open>sizeof(T)\<close> bytes of the object, least significant byte first on the Arduino
  targets; \<open>float\<close>, \<open>long\<close> and \<open>int32_t\<close> are all 4 bytes there. The array is taken
  unbounded: what an address beyond the part's size does is not modelled.
\<close>

type_synonym eeprom = "int \<Rightarrow> 8 word"

definition EEPROM_get :: "eeprom \<Rightarrow> int \<Rightarrow> 32 word" where
  "EEPROM_get e idx =
     ucast (e idx) OR push_bit 8 (ucast (e (idx + 1)))
       OR push_bit 16 (ucast (e (idx + 2))) OR push_bit 24 (ucast (e (idx + 3)))"

definition EEPROM_put :: "eeprom \<Rightarrow> int \<Rightarrow> 32 word \<Rightarrow> eeprom" where
  "EEPROM_put e idx t =
     e(idx := ucast t, idx + 1 := ucast (drop_bit 8 t),
       idx + 2 := ucast (drop_bit 16 t), idx + 3 := ucast (drop_bit 24 t))"

section \<open>QwiicScale\<close>

definition SCALE_OK :: error_code_t where "SCALE_OK = 0"
definition SCALE_EEPROM_READ_CAL_ERROR :: error_code_t where "SCALE_EEPROM_READ_CAL_ERROR = - 1001"
definition SCALE_EEPROM_READ_OFFSET_ERROR :: error_code_t where "SCALE_EEPROM_READ_OFFSET_ERROR = - 1002"
definition SCALE_NOT_CALIBRATED_ERROR :: error_code_t where "SCALE_NOT_CALIBRATED_ERROR = - 1003"

lemmas scale_error_defs =
  SCALE_OK_def SCALE_EEPROM_READ_CAL_ERROR_def SCALE_EEPROM_READ_OFFSET_ERROR_def
  SCALE_NOT_CALIBRATED_ERROR_def

text \<open>The fields of class \<open>QwiicScale\<close>; \<open>calibrationFactor\<close> is a \<open>float\<close>,
  \<open>zeroOffset\<close> an \<open>int32_t\<close>.\<close>

record scale =
  useEEPROM :: bool
  calibrationDetected :: bool
  isCalibrated :: bool
  calFactorLocation :: int
  zeroOffsetLocation :: int
  calibrationFactor :: "32 word"
  zeroOffset :: "32 word"

text \<open>The member initialisers of the class.\<close>

definition QwiicScale :: scale where
  "QwiicScale =
     \<lparr>useEEPROM = True, calibrationDetected = False, isCalibrated = False,
      calFactorLocation = 0, zeroOffsetLocation = 10,
      calibrationFactor = float_one, zeroOffset = 0\<rparr>"

definition setCalibrationFactor :: "32 word \<Rightarrow> scale \<Rightarrow> scale" where
  "setCalibrationFactor newCalFactor s = s\<lparr>calibrationFactor := newCalFactor\<rparr>"

definition getCalibrationFactor :: "scale \<Rightarrow> 32 word" where
  "getCalibrationFactor s = calibrationFactor s"

definition setZeroOffset :: "32 word \<Rightarrow> scale \<Rightarrow> scale" where
  "setZeroOffset newZeroOffset s = s\<lparr>zeroOffset := newZeroOffset\<rparr>"

definition getZeroOffset :: "scale \<Rightarrow> 32 word" where
  "getZeroOffset s = zeroOffset s"

definition setCalFactorLocation :: "int \<Rightarrow> scale \<Rightarrow> scale" where
  "setCalFactorLocation eeprom_location s = s\<lparr>calFactorLocation := eeprom_location\<rparr>"

text \<open>The source: \<open>void setZeroOffsetLocation(int eeprom_location)
  {calFactorLocation = eeprom_location;}\<close>.\<close>

definition setZeroOffsetLocation :: "int \<Rightarrow> scale \<Rightarrow> scale" where
  "setZeroOffsetLocation eeprom_location s = s\<lparr>calFactorLocation := eeprom_location\<rparr>"

definition getZeroOffsetLocation :: "scale \<Rightarrow> int" where
  "getZeroOffsetLocation s = zeroOffsetLocation s"

definition storeCalibration :: "scale \<Rightarrow> eeprom \<Rightarrow> eeprom" where
  "storeCalibration s e =
     (let e1 = EEPROM_put e (calFactorLocation s) (getCalibrationFactor s)
      in EEPROM_put e1 (zeroOffsetLocation s) (getZeroOffset s))"

text \<open>\<open>isnan\<close> applied to the \<open>long\<close> \<open>settingZeroOffset\<close>: the integer is converted
  to a floating-point number, which is never a NaN.\<close>

definition isnan_long :: "32 word \<Rightarrow> bool" where
  "isnan_long n = False"

definition readCalibration :: "scale \<Rightarrow> eeprom \<Rightarrow> error_code_t \<times> scale \<times> eeprom" where
  "readCalibration s e =
     (let settingCalibrationFactor = EEPROM_get e (calFactorLocation s)
      in if float_eq_ffffffff settingCalibrationFactor \<or> isnan settingCalibrationFactor
         then (let s1 = s\<lparr>isCalibrated := False, calibrationDetected := False,
                           zeroOffset := 0, calibrationFactor := float_one\<rparr>;
                   e1 = EEPROM_put e (calFactorLocation s1) (calibrationFactor s1)
               in (SCALE_EEPROM_READ_CAL_ERROR, s1, e1))
         else
           (let s1 = s\<lparr>calibrationFactor := settingCalibrationFactor\<rparr>;
                settingZeroOffset = EEPROM_get e (zeroOffsetLocation s1)
            in if settingZeroOffset = 0xFFFFFFFF \<or> isnan_long settingZeroOffset
               then (let s2 = s1\<lparr>isCalibrated := False, calibrationDetected := False,
                                  zeroOffset := 0, calibrationFactor := float_one\<rparr>;
                         e1 = EEPROM_put e (zeroOffsetLocation s2) (zeroOffset s2);
                         e2 = EEPROM_put e1 (calFactorLocation s2) (calibrationFactor s2)
                     in (SCALE_EEPROM_READ_OFFSET_ERROR, s2, e2))
               else
                 (let s2 = s1\<lparr>zeroOffset := settingZeroOffset, calibrationDetected := True\<rparr>
                  in if zeroOffset s2 = 0 \<or> float_minus_one_less (calibrationFactor s2)
                     then (SCALE_OK, s2\<lparr>isCalibrated := False, calibrationDetected := False\<rparr>, e)
                     else (SCALE_OK, s2\<lparr>isCalibrated := True\<rparr>, e))))"

text \<open>
  \<open>getAverageWeight\<close> ends in an error code, in \<open>SCALE_OK\<close> with the weight written
  (\<open>Weight_OK\<close> when the weight is exact, \<open>Weight_OK_rounded q\<close> when it is the exact
  quotient \<open>q\<close> rounded to binary32), or in the division by zero of
  \<open>getAverageReading\<close>; it is \<open>None\<close> when \<open>getAverageReading\<close> does not return.
  \<open>avg_reading < zeroOffset\<close> and \<open>avg_reading - zeroOffset\<close> are \<open>int32_t\<close>
  operations (the subtraction is taken to wrap around; C++ leaves its overflow undefined).
\<close>

datatype weight_result =
  Weight_Error error_code_t | Weight_OK cfloat | Weight_OK_rounded real | Weight_Division_By_Zero

definition getAverageWeight ::
  "8 word \<Rightarrow> bool \<Rightarrow> scale \<Rightarrow> world \<Rightarrow> (weight_result \<times> world) option" where
  "getAverageWeight average_size allow_negative s w =
     (if \<not> isCalibrated s then Some (Weight_Error SCALE_NOT_CALIBRATED_ERROR, w)
      else (case getAverageReading average_size w of
              None \<Rightarrow> None
            | Some (Avg_Error err, w1) \<Rightarrow> Some (Weight_Error err, w1)
            | Some (Avg_Division_By_Zero, w1) \<Rightarrow> Some (Weight_Division_By_Zero, w1)
            | Some (Avg_OK avg, w1) \<Rightarrow>
                (let avg_reading = (if allow_negative = False \<and> avg <s zeroOffset s
                                    then zeroOffset s else avg)
                 in case int_div_float (sint (avg_reading - zeroOffset s))
                           (calibrationFactor s) of
                      Inr v \<Rightarrow> Some (Weight_OK v, w1)
                    | Inl q \<Rightarrow> Some (Weight_OK_rounded q, w1))))"

section \<open>Notions used in the statements\<close>

text \<open>The world after one frame has gone out with result \<open>r\<close>, after a register read
  has been served, and after one reading of the clock.\<close>

definition frame_of :: "8 word \<Rightarrow> 8 word option \<Rightarrow> 8 word list" where
  "frame_of a val = a # (case val of None \<Rightarrow> [] | Some v \<Rightarrow> [v])"

definition sent :: "8 word list \<Rightarrow> 8 word \<Rightarrow> world \<Rightarrow> world" where
  "sent frame r w =
     w\<lparr>ntx := Suc (ntx w),
       ptr := (case frame of a # _ \<Rightarrow> if r = 0 then a else ptr w | [] \<Rightarrow> ptr w),
       txbuf := frame, txlog := txlog w @ [frame]\<rparr>"

definition served :: "8 word \<Rightarrow> world \<Rightarrow> world" where
  "served a w = (sent [a] 0 w)\<lparr>nrx := Suc (nrx w), rxbuf := []\<rparr>"

definition ticked :: "world \<Rightarrow> world" where
  "ticked w = w\<lparr>nclk := Suc (nclk w)\<rparr>"






subsection \<open>Concrete environments\<close>

text \<open>A healthy bus in front of a device whose registers all read 0; the clock advances
  by one millisecond per reading.\<close>

definition quiet_world :: world where
  "quiet_world =
     \<lparr>acks = (\<lambda>_. 0), dev = (\<lambda>_ _. 0), rxlen = (\<lambda>_. 32), clock = (\<lambda>k. of_nat k),
      ntx = 0, nrx = 0, nclk = 0, slept = 0, ptr = 0, txbuf = [], rxbuf = [], txlog = []\<rparr>"

text \<open>CTRL2 reads 0x08: CALS clear, CAL_ERR set.\<close>

definition cal_failed_world :: world where
  "cal_failed_world = quiet_world\<lparr>dev := (\<lambda>_ a. if a = NAU7802_CTRL2 then 0x08 else 0)\<rparr>"

text \<open>Every transmission ends in a NACK on data.\<close>

definition nack_world :: world where
  "nack_world = quiet_world\<lparr>acks := (\<lambda>_. 3)\<rparr>"


text \<open>The first transmission ends in a NACK on data, every later one succeeds; and a bus
  on which every transmission reports data too long.\<close>

definition data_nack_once :: world where
  "data_nack_once = quiet_world\<lparr>acks := (\<lambda>k. if k = 0 then 3 else 0)\<rparr>"

definition always_too_big :: world where
  "always_too_big = quiet_world\<lparr>acks := (\<lambda>_. 1)\<rparr>"

text \<open>Every transmission ends in a NACK on address.\<close>

definition addr_nack_world :: world where
  "addr_nack_world = quiet_world\<lparr>acks := (\<lambda>_. 2)\<rparr>"


text \<open>A conversion is always ready (PU_CTRL reads 0x20, the CR bit) and the ADC output
  registers hold the three given bytes; the clock stands still.\<close>

definition sample_world :: "8 word \<Rightarrow> 8 word \<Rightarrow> 8 word \<Rightarrow> world" where
  "sample_world msb midsb lsb =
     quiet_world\<lparr>dev := (\<lambda>_ a. if a = NAU7802_PU_CTRL then 0x20
                                else if a = NAU7802_ADCO_B2 then msb
                                else if a = NAU7802_ADCO_B2 + 1 then midsb
                                else if a = NAU7802_ADCO_B2 + 2 then lsb else 0),
                 clock := (\<lambda>_. 0)\<rparr>"


text \<open>An erased EEPROM, and one holding a gain factor at 0 and a zero offset at 10.\<close>

definition erased :: eeprom where
  "erased = (\<lambda>_. 0xFF)"

definition stored :: "32 word \<Rightarrow> 32 word \<Rightarrow> eeprom" where
  "stored factor offset = EEPROM_put (EEPROM_put erased 0 factor) 10 offset"

text \<open>The scale after a calibration with zero offset 1000 and gain factor 2.0.\<close>

definition calibrated_scale :: scale where
  "calibrated_scale =
     QwiicScale\<lparr>isCalibrated := True, zeroOffset := 1000, calibrationFactor := 0x40000000\<rparr>"

section \<open>Register transport: facts\<close>

text \<open>One pass of the loop of \<open>i2c_write\<close> puts one frame on the bus; a transaction on a
  healthy bus leaves the environment as \<open>sent\<close> and \<open>served\<close> describe.\<close>

lemmas wire_defs = beginTransmission_def wire_write_def endTransmission_def requestFrom_def
  available_bytes_def wire_read_def millis_def delay_def

lemma transmit_once:
  "endTransmission (case val of None \<Rightarrow> wire_write a (beginTransmission w)
                     | Some v \<Rightarrow> wire_write v (wire_write a (beginTransmission w)))
     = (acks w (ntx w), sent (frame_of a val) (acks w (ntx w)) w)"
  by (cases val) (simp_all add: wire_defs sent_def frame_of_def Let_def)

lemma i2c_write_loop_Suc:
  "i2c_write_loop (Suc n) ret a val w =
     (let r = acks w (ntx w); w4 = sent (frame_of a val) r w
      in if r = 1 \<or> r = 2 then i2c_write_loop n r a val w4 else (r, w4))"
  using transmit_once [where val=val and a=a and w=w] by (simp add: Let_def)

lemma i2c_write_unfold:
  "i2c_write a val w = i2c_write_loop (Suc (Suc (Suc 0))) 0 a val w"
  by (simp add: i2c_write_def numeral_3_eq_3)

lemma i2c_write_first:
  "acks w (ntx w) \<noteq> 1 \<Longrightarrow> acks w (ntx w) \<noteq> 2 \<Longrightarrow>
   i2c_write a val w = (acks w (ntx w), sent (frame_of a val) (acks w (ntx w)) w)"
  by (simp add: i2c_write_unfold i2c_write_loop_Suc Let_def del: i2c_write_loop.simps)

lemma sent_simps [simp]:
  "acks (sent f r w) = acks w" "dev (sent f r w) = dev w" "rxlen (sent f r w) = rxlen w"
  "clock (sent f r w) = clock w" "ntx (sent f r w) = Suc (ntx w)" "nrx (sent f r w) = nrx w"
  "nclk (sent f r w) = nclk w" "slept (sent f r w) = slept w"
  "txlog (sent f r w) = txlog w @ [f]"
  by (simp_all add: sent_def)

lemma served_simps [simp]:
  "acks (served a w) = acks w" "dev (served a w) = dev w" "rxlen (served a w) = rxlen w"
  "clock (served a w) = clock w" "ntx (served a w) = Suc (ntx w)" "nrx (served a w) = Suc (nrx w)"
  "nclk (served a w) = nclk w" "slept (served a w) = slept w"
  "txlog (served a w) = txlog w @ [[a]]"
  by (simp_all add: served_def sent_def)

lemma delay_simps [simp]:
  "acks (delay n w) = acks w" "dev (delay n w) = dev w" "rxlen (delay n w) = rxlen w"
  "clock (delay n w) = clock w" "ntx (delay n w) = ntx w" "nrx (delay n w) = nrx w"
  "nclk (delay n w) = nclk w" "slept (delay n w) = slept w + n"
  by (simp_all add: delay_def)

lemma millis_eq: "millis w = (clock w (nclk w), ticked w)"
  by (simp add: millis_def ticked_def)

lemma ticked_simps [simp]:
  "acks (ticked w) = acks w" "dev (ticked w) = dev w" "rxlen (ticked w) = rxlen w"
  "clock (ticked w) = clock w" "ntx (ticked w) = ntx w" "nrx (ticked w) = nrx w"
  "nclk (ticked w) = Suc (nclk w)" "slept (ticked w) = slept w"
  by (simp_all add: ticked_def)

lemma getRegister_ok:
  "acks w (ntx w) = 0 \<Longrightarrow> 0 < rxlen w (nrx w) \<Longrightarrow>
   getRegister a w = (Inr (dev w (nrx w) a), served a w)"
  by (simp add: getRegister_def i2c_write_first ret_error_def frame_of_def wire_defs
      sent_def served_def Let_def)

lemma getBit_ok:
  "acks w (ntx w) = 0 \<Longrightarrow> 0 < rxlen w (nrx w) \<Longrightarrow>
   getBit b a w = (Inr (dev w (nrx w) a AND bit_mask b), served a w)"
  by (simp add: getBit_def getRegister_ok)



lemma available_ok:
  "acks w (ntx w) = 0 \<Longrightarrow> 0 < rxlen w (nrx w) \<Longrightarrow>
   available w = (Inr (dev w (nrx w) NAU7802_PU_CTRL AND bit_mask NAU7802_PU_CTRL_CR \<noteq> 0),
                  served NAU7802_PU_CTRL w)"
  by (simp add: available_def getBit_ok)

lemma getReading_ok:
  assumes "acks w (ntx w) = 0" "3 \<le> rxlen w (nrx w)"
  shows "getReading w =
           (Inr (decode_reading (uint (dev w (nrx w) NAU7802_ADCO_B2))
                   (uint (dev w (nrx w) (NAU7802_ADCO_B2 + 1)))
                   (uint (dev w (nrx w) (NAU7802_ADCO_B2 + 2)))),
            served NAU7802_ADCO_B2 w)"
  using assms
  by (simp add: getReading_def i2c_write_first ret_error_def frame_of_def wire_defs
      sent_def served_def Let_def numeral_3_eq_3 min_def upt_rec)







section \<open>Calibration wait: facts\<close>




text \<open>Whatever the device does, the wait returns one of two codes.\<close>

lemma wait_loop_result:
  assumes "waitForCalibrateAFE_loop begin_ms timeout_ms w = Some r"
  shows "fst r = NAU7802_OK \<or> fst r = NAU7802_CAL_AFE_ERROR"
  using assms
proof (induction rule: waitForCalibrateAFE_loop.raw_induct [rotated 1, consumes 1])
  case (1 loop begin_ms timeout_ms w r)
  then show ?case
    by (auto split: prod.splits if_splits)
qed

section \<open>Readings: facts\<close>





lemma avg_zero: "getAverageReading 0 w = Some (Avg_Division_By_Zero, ticked w)"
  by (simp add: getAverageReading_def millis_eq getAverageReading_loop.simps [of 0])








lemma sample_world_simps [simp]:
  "acks (sample_world a b c) k = 0" "rxlen (sample_world a b c) k = 32"
  "clock (sample_world a b c) k = 0"
  "ntx (sample_world a b c) = 0" "nrx (sample_world a b c) = 0" "nclk (sample_world a b c) = 0"
  "dev (sample_world a b c) k NAU7802_PU_CTRL = 0x20"
  "dev (sample_world a b c) k NAU7802_ADCO_B2 = a"
  "dev (sample_world a b c) k (NAU7802_ADCO_B2 + 1) = b"
  "dev (sample_world a b c) k (NAU7802_ADCO_B2 + 2) = c"
  by (simp_all add: sample_world_def quiet_world_def register_defs)


lemma avg_one_sample:
  "map_option fst (getAverageReading 1 (sample_world a b c))
     = Some (Avg_OK (decode_reading (uint a) (uint b) (uint c)))"
proof -
  let ?w0 = "ticked (sample_world a b c)"
  let ?w1 = "served NAU7802_PU_CTRL ?w0"
  let ?w2 = "served NAU7802_ADCO_B2 ?w1"
  have av: "available ?w0 = (Inr True, ?w1)"
    by (simp add: available_ok bit_mask_def NAU7802_PU_CTRL_CR_def)
  have rd: "getReading ?w1 = (Inr (decode_reading (uint a) (uint b) (uint c)), ?w2)"
    by (simp add: getReading_ok)
  have "getAverageReading_loop 1 13 0 0 0 ?w0
      = Some (Inr (decode_reading (uint a) (uint b) (uint c)), ticked ?w2)"
    by (subst getAverageReading_loop.simps, simp add: av rd millis_eq)
       (subst getAverageReading_loop.simps, simp)
  then show ?thesis
    by (simp add: getAverageReading_def millis_eq)
qed



section \<open>EEPROM and floats: facts\<close>

lemma float_2: "float_val 0x40000000 = Fin 2"
  by (simp add: float_val_def)
lemma float_1: "float_val float_one = Fin 1"
  by (simp add: float_val_def float_one_def)
lemma float_half: "float_val 0x3F000000 = Fin (1/2)"
  by (simp add: float_val_def)
lemma float_nan: "float_val 0xFFFFFFFF = NaN"
  by (simp add: float_val_def)
lemma float_2p32: "float_val 0x4F800000 = Fin 4294967296"
  by (simp add: float_val_def)

lemma get_put: "EEPROM_get (EEPROM_put e i t) i = t"
proof (rule bit_eqI)
  fix n
  assume "possible_bit TYPE(32 word) n"
  then have n: "n < 32" by simp
  consider "n < 8" | "8 \<le> n" "n < 16" | "16 \<le> n" "n < 24" | "24 \<le> n"
    by linarith
  then show "bit (EEPROM_get (EEPROM_put e i t) i) n = bit t n"
    using n by cases (auto simp add: EEPROM_get_def EEPROM_put_def bit_simps)
qed

lemma get_put_other:
  "i + 4 \<le> j \<or> j + 4 \<le> i \<Longrightarrow> EEPROM_get (EEPROM_put e i t) j = EEPROM_get e j"
  by (auto simp add: EEPROM_get_def EEPROM_put_def)

lemma stored_get: "EEPROM_get (stored f z) 0 = f" "EEPROM_get (stored f z) 10 = z"
  by (simp_all add: stored_def get_put get_put_other)

section \<open>The claims\<close>

subsection \<open>C1: a failed calibration and a transport error during the wait\<close>

text \<open>
  C1 says that \<open>waitForCalibrateAFE\<close> returns a calibration-failure error when a poll
  reports the Failed state (CALS clear, CAL_ERR set), and passes a transport error of the
  polling upward. The loop leaves as soon as \<open>calAFEStatus\<close> is not
  \<open>NAU7802_CAL_IN_PROGRESS\<close>, and the function then returns \<open>NAU7802_OK\<close> whatever the
  status was. Evaluated on a device whose CTRL2 reads 0x08 the poll is
  \<open>NAU7802_CAL_FAILURE\<close> and the wait returns \<open>NAU7802_OK\<close>; on a bus that answers every
  transmission with a NACK on data the poll is \<open>NAU7802_I2C_NACK_DATA_ERROR\<close> and the
  wait returns \<open>NAU7802_OK\<close> as well.
\<close>

theorem waitForCalibrateAFE_reports_ok_on_failure:
  "fst (calAFEStatus (ticked cal_failed_world)) = NAU7802_CAL_FAILURE
   \<and> map_option fst (waitForCalibrateAFE 100 cal_failed_world) = Some NAU7802_OK
   \<and> fst (calAFEStatus (ticked nack_world)) = NAU7802_I2C_NACK_DATA_ERROR
   \<and> map_option fst (waitForCalibrateAFE 100 nack_world) = Some NAU7802_OK"
proof -
  let ?w = "ticked cal_failed_world"
  have bus: "acks cal_failed_world k = 0" "rxlen cal_failed_world k = 32"
    "dev cal_failed_world k NAU7802_CTRL2 = 0x08" for k
    by (simp_all add: cal_failed_world_def quiet_world_def)
  have st: "calAFEStatus ?w = (NAU7802_CAL_FAILURE, served NAU7802_CTRL2 (served NAU7802_CTRL2 ?w))"
    by (simp add: calAFEStatus_def getBit_ok bus bit_mask_def NAU7802_CTRL2_CALS_def
        NAU7802_CTRL2_CAL_ERROR_def)
  have "waitForCalibrateAFE_loop b 100 ?w
          = Some (NAU7802_OK, served NAU7802_CTRL2 (served NAU7802_CTRL2 ?w))" for b
    by (subst waitForCalibrateAFE_loop.simps) (simp add: st cal_status_defs)
  then have 1: "waitForCalibrateAFE 100 cal_failed_world
             = Some (NAU7802_OK, served NAU7802_CTRL2 (served NAU7802_CTRL2 ?w))"
    by (simp add: waitForCalibrateAFE_def millis_eq)
  let ?n = "ticked nack_world"
  have nack: "acks nack_world k = 3" for k
    by (simp add: nack_world_def quiet_world_def)
  have gr: "getRegister NAU7802_CTRL2 ?n
              = (Inl NAU7802_I2C_NACK_DATA_ERROR, sent [NAU7802_CTRL2] 3 ?n)"
    by (simp add: getRegister_def i2c_write_first nack ret_error_def frame_of_def)
  have st2: "calAFEStatus ?n = (NAU7802_I2C_NACK_DATA_ERROR, sent [NAU7802_CTRL2] 3 ?n)"
    by (simp add: calAFEStatus_def getBit_def gr)
  have "waitForCalibrateAFE_loop b 100 ?n = Some (NAU7802_OK, sent [NAU7802_CTRL2] 3 ?n)" for b
    by (subst waitForCalibrateAFE_loop.simps) (simp add: st2 cal_status_defs error_code_defs)
  then have 2: "waitForCalibrateAFE 100 nack_world = Some (NAU7802_OK, sent [NAU7802_CTRL2] 3 ?n)"
    by (simp add: waitForCalibrateAFE_def millis_eq)
  show ?thesis
    by (simp add: st st2 1 2)
qed

subsection \<open>C2: the wait while the device keeps calibrating\<close>




subsection \<open>C3: averaging zero samples\<close>

text \<open>
  C3 says that \<open>getAverageReading\<close> with \<open>average_size = 0\<close> returns an explicit error
  and never divides. The source has no test of \<open>average_size\<close>: the loop is skipped and
  \<open>total / average_size\<close> is executed with divisor 0, in every environment.
\<close>

theorem getAverageReading_zero_size_divides:
  "getAverageReading 0 w = Some (Avg_Division_By_Zero, snd (millis w))"
  by (simp add: avg_zero millis_eq)

subsection \<open>C4: which results of a transmission are retried\<close>

text \<open>
  C4 says that \<open>i2c_write\<close> retries on a NACK at the address phase and at the data phase
  and on nothing else. The \<open>switch\<close> retries on the results 1 and 2 of
  \<open>endTransmission\<close>, which \<open>getRegister\<close> itself reads as data-too-big and NACK on
  address; result 3, NACK on data, is returned at once. Evaluated: with a NACK on data in
  the first transmission only, \<open>i2c_write\<close> returns 3 after one transmission and
  \<open>getRegister\<close> fails with \<open>NAU7802_I2C_NACK_DATA_ERROR\<close>; with data-too-big every
  time, \<open>i2c_write\<close> transmits three times; so it does with a NACK on address every
  time, the one class that is treated as C4 says.
\<close>

theorem i2c_write_retry_classes:
  "fst (i2c_write NAU7802_CTRL2 None data_nack_once) = 3
   \<and> ntx (snd (i2c_write NAU7802_CTRL2 None data_nack_once)) = 1
   \<and> fst (getRegister NAU7802_CTRL2 data_nack_once) = Inl NAU7802_I2C_NACK_DATA_ERROR
   \<and> fst (i2c_write NAU7802_CTRL2 None always_too_big) = 1
   \<and> ntx (snd (i2c_write NAU7802_CTRL2 None always_too_big)) = 3
   \<and> fst (i2c_write NAU7802_CTRL2 None addr_nack_world) = 2
   \<and> ntx (snd (i2c_write NAU7802_CTRL2 None addr_nack_world)) = 3"
proof -
  have a: "acks data_nack_once 0 = 3" "ntx data_nack_once = 0"
    by (simp_all add: data_nack_once_def quiet_world_def)
  have w: "i2c_write NAU7802_CTRL2 None data_nack_once
             = (3, sent (frame_of NAU7802_CTRL2 None) 3 data_nack_once)"
    using i2c_write_first [of data_nack_once NAU7802_CTRL2 None] by (simp add: a)
  have b: "acks always_too_big k = 1" "ntx always_too_big = 0" for k
    by (simp_all add: always_too_big_def quiet_world_def)
  have t: "i2c_write NAU7802_CTRL2 None always_too_big
             = (1, sent (frame_of NAU7802_CTRL2 None) 1
                     (sent (frame_of NAU7802_CTRL2 None) 1
                        (sent (frame_of NAU7802_CTRL2 None) 1 always_too_big)))"
    by (simp add: i2c_write_unfold i2c_write_loop_Suc b Let_def del: i2c_write_loop.simps)
       simp
  have c: "acks addr_nack_world k = 2" "ntx addr_nack_world = 0" for k
    by (simp_all add: addr_nack_world_def quiet_world_def)
  have u: "i2c_write NAU7802_CTRL2 None addr_nack_world
             = (2, sent (frame_of NAU7802_CTRL2 None) 2
                     (sent (frame_of NAU7802_CTRL2 None) 2
                        (sent (frame_of NAU7802_CTRL2 None) 2 addr_nack_world)))"
    by (simp add: i2c_write_unfold i2c_write_loop_Suc c Let_def del: i2c_write_loop.simps)
       simp
  show ?thesis
    by (simp add: w t u a b c getRegister_def ret_error_def)
qed

subsection \<open>C5: decoding a reading\<close>



subsection \<open>C6: the is-calibrated flag after loading a valid record\<close>

text \<open>
  C6 says that after both fields were read back valid the flag is false exactly when
  \<open>zeroOffset\<close> is zero while \<open>gainFactor\<close> is effectively 1.0, so that a record with
  a non-zero offset, or with a gain factor well below 1.0, is calibrated. Counterexample to
  C6 as stated: with offset 1000 and gain factor 0.5 both fields are read back valid and the
  flag is false; with offset 0 and gain factor 2.0 the flag is false too.
\<close>

theorem readCalibration_flag_counterexample:
  "fst (readCalibration QwiicScale (stored 0x3F000000 1000)) = SCALE_OK
   \<and> float_val (calibrationFactor (fst (snd (readCalibration QwiicScale (stored 0x3F000000 1000))))) = Fin (1 / 2)
   \<and> zeroOffset (fst (snd (readCalibration QwiicScale (stored 0x3F000000 1000)))) = 1000
   \<and> isCalibrated (fst (snd (readCalibration QwiicScale (stored 0x3F000000 1000)))) = False
   \<and> fst (readCalibration QwiicScale (stored 0x40000000 0)) = SCALE_OK
   \<and> float_val (calibrationFactor (fst (snd (readCalibration QwiicScale (stored 0x40000000 0))))) = Fin 2
   \<and> zeroOffset (fst (snd (readCalibration QwiicScale (stored 0x40000000 0)))) = 0
   \<and> isCalibrated (fst (snd (readCalibration QwiicScale (stored 0x40000000 0)))) = False"
  by (simp add: readCalibration_def QwiicScale_def stored_get isnan_def float_eq_ffffffff_def
      float_minus_one_less_def float_half float_2 isnan_long_def Let_def)

text \<open>
  C6 as amended: after \<open>readCalibration\<close> has read back both fields as valid (the gain
  factor neither NaN nor equal to \<open>0xFFFFFFFF\<close> as a float, the offset not all ones), it
  returns \<open>SCALE_OK\<close>, leaves the EEPROM as it is, holds the two values read, and the flag
  is true exactly when \<open>zeroOffset\<close> is not zero and \<open>gainFactor - 1.0 < 0.001\<close> is
  false, that is, the gain factor is at least 1.001.
\<close>

theorem readCalibration_flag:
  assumes "EEPROM_get e (calFactorLocation s) = f" and "EEPROM_get e (zeroOffsetLocation s) = z"
    and "\<not> float_eq_ffffffff f" and "\<not> isnan f" and "z \<noteq> 0xFFFFFFFF"
  shows "\<exists>s'. readCalibration s e = (SCALE_OK, s', e)
           \<and> calibrationFactor s' = f \<and> zeroOffset s' = z
           \<and> isCalibrated s'
               = (z \<noteq> 0 \<and> (case float_val f of Fin x \<Rightarrow> 1001 / 1000 \<le> x | PInf \<Rightarrow> True
                                 | NInf \<Rightarrow> False | NaN \<Rightarrow> False))"
  using assms
  by (cases "float_val f")
     (auto simp add: readCalibration_def Let_def isnan_long_def isnan_def
        float_minus_one_less_def)

text \<open>Witness for C6: offset 1000 and gain factor 2.0 are read back and the scale is
  calibrated.\<close>

theorem readCalibration_flag_witness:
  "\<exists>s'. readCalibration QwiicScale (stored 0x40000000 1000) = (SCALE_OK, s', stored 0x40000000 1000)
        \<and> calibrationFactor s' = 0x40000000 \<and> zeroOffset s' = 1000 \<and> isCalibrated s'"
  using readCalibration_flag [where e = "stored 0x40000000 1000" and s = QwiicScale
      and f = "0x40000000" and z = 1000]
  by (simp add: QwiicScale_def stored_get isnan_def float_eq_ffffffff_def float_2)

subsection \<open>C7: loading a record whose gain factor is not a number\<close>

text \<open>
  C7 says that when the gain factor reads back as NaN, \<open>readCalibration\<close> resets both
  fields in memory, rewrites both persisted fields with the defaults and returns the error
  of the gain factor. The branch stores the gain factor only: \<open>EEPROM.put\<close> is called
  for \<open>calFactorLocation\<close> and not for \<open>zeroOffsetLocation\<close>, as the branch of the
  invalid offset does. Evaluated on an EEPROM whose gain factor is all ones and whose offset
  is 1234: the call returns \<open>SCALE_EEPROM_READ_CAL_ERROR\<close>, the fields in memory are 0
  and 1.0, the stored gain factor is 1.0, and the stored offset is still 1234; on an erased
  EEPROM the stored offset is still all ones.
\<close>

theorem readCalibration_nan_factor_keeps_stored_offset:
  "fst (readCalibration QwiicScale (stored 0xFFFFFFFF 1234)) = SCALE_EEPROM_READ_CAL_ERROR
   \<and> zeroOffset (fst (snd (readCalibration QwiicScale (stored 0xFFFFFFFF 1234)))) = 0
   \<and> calibrationFactor (fst (snd (readCalibration QwiicScale (stored 0xFFFFFFFF 1234)))) = float_one
   \<and> EEPROM_get (snd (snd (readCalibration QwiicScale (stored 0xFFFFFFFF 1234)))) 0 = float_one
   \<and> EEPROM_get (snd (snd (readCalibration QwiicScale (stored 0xFFFFFFFF 1234)))) 10 = 1234
   \<and> EEPROM_get (snd (snd (readCalibration QwiicScale erased))) 10 = 0xFFFFFFFF"
proof -
  have nan: "isnan (EEPROM_get erased 0)" "EEPROM_get erased 10 = 0xFFFFFFFF"
    by (simp_all add: EEPROM_get_def erased_def isnan_def float_val_def)
  show ?thesis
    by (simp add: readCalibration_def QwiicScale_def stored_get isnan_def float_nan Let_def
        get_put get_put_other nan [unfolded isnan_def])
qed

subsection \<open>C8: the time budget of the averaging\<close>




subsection \<open>C9: the weight of a reading below and above the zero offset\<close>

text \<open>
  C9: with the scale calibrated, \<open>zeroOffset = 1000\<close>, \<open>gainFactor = 2.0\<close> and
  \<open>allow_negative = false\<close>, \<open>getAverageWeight\<close> returns 0.0 when the averaged reading
  is 900 and 1000.0 when it is 3000; any averaged reading below the zero offset gives 0.0.
\<close>

theorem getAverageWeight_clamps:
  assumes "isCalibrated s" and "zeroOffset s = 1000" and "float_val (calibrationFactor s) = Fin 2"
    and "map_option fst (getAverageReading average_size w) = Some (Avg_OK avg)"
  shows "(avg = 900 \<longrightarrow>
            map_option fst (getAverageWeight average_size False s w) = Some (Weight_OK (Fin 0)))
       \<and> (avg = 3000 \<longrightarrow>
            map_option fst (getAverageWeight average_size False s w) = Some (Weight_OK (Fin 1000)))
       \<and> (avg <s 1000 \<longrightarrow>
            map_option fst (getAverageWeight average_size False s w) = Some (Weight_OK (Fin 0)))"
proof -
  obtain w1 where r: "getAverageReading average_size w = Some (Avg_OK avg, w1)"
    using assms(4) by (cases "getAverageReading average_size w") auto
  show ?thesis
    using assms(1-3)
    by (simp add: getAverageWeight_def r int_div_float_def word_sless_alt)
qed

text \<open>Witness for C9: one sample is averaged, of bytes 0x00 0x03 0x84 (900) and of
  bytes 0x00 0x0B 0xB8 (3000).\<close>

theorem getAverageWeight_clamps_witness:
  "map_option fst (getAverageWeight 1 False calibrated_scale (sample_world 0x00 0x03 0x84))
     = Some (Weight_OK (Fin 0))
   \<and> map_option fst (getAverageWeight 1 False calibrated_scale (sample_world 0x00 0x0B 0xB8))
     = Some (Weight_OK (Fin 1000))"
proof -
  have s: "isCalibrated calibrated_scale" "zeroOffset calibrated_scale = 1000"
    "float_val (calibrationFactor calibrated_scale) = Fin 2"
    by (simp_all add: calibrated_scale_def QwiicScale_def float_2)
  have a: "map_option fst (getAverageReading 1 (sample_world 0x00 0x03 0x84)) = Some (Avg_OK 900)"
    by (simp add: avg_one_sample decode_reading_def)
  have b: "map_option fst (getAverageReading 1 (sample_world 0x00 0x0B 0xB8)) = Some (Avg_OK 3000)"
    by (simp add: avg_one_sample decode_reading_def)
  show ?thesis
    using getAverageWeight_clamps [OF s a] getAverageWeight_clamps [OF s b] by simp
qed

subsection \<open>C10: the location of the zero offset\<close>

text \<open>
  C10 says that \<open>setZeroOffsetLocation x\<close> moves the place where \<open>storeCalibration\<close>
  writes \<open>zeroOffset\<close> to \<open>x\<close> and leaves the place of the gain factor alone. The body
  of \<open>setZeroOffsetLocation\<close> assigns \<open>calFactorLocation\<close>: the location of the zero
  offset is unchanged and the location of the gain factor becomes \<open>x\<close>. Evaluated: after
  \<open>setZeroOffsetLocation 20\<close>, \<open>storeCalibration\<close> on an erased EEPROM writes the zero
  offset at 10 and the gain factor at 20, and location 0 stays erased.
\<close>

theorem setZeroOffsetLocation_sets_calFactorLocation:
  "zeroOffsetLocation (setZeroOffsetLocation x s) = zeroOffsetLocation s
   \<and> calFactorLocation (setZeroOffsetLocation x s) = x
   \<and> EEPROM_get (storeCalibration (setZeroOffsetLocation 20 calibrated_scale) erased) 10 = 1000
   \<and> EEPROM_get (storeCalibration (setZeroOffsetLocation 20 calibrated_scale) erased) 20 = 0x40000000
   \<and> EEPROM_get (storeCalibration (setZeroOffsetLocation 20 calibrated_scale) erased) 0 = 0xFFFFFFFF"
proof -
  have "EEPROM_get erased 0 = 0xFFFFFFFF"
    by (simp add: EEPROM_get_def erased_def)
  then show ?thesis
    by (simp add: setZeroOffsetLocation_def storeCalibration_def calibrated_scale_def
        QwiicScale_def getCalibrationFactor_def getZeroOffset_def Let_def get_put get_put_other)
qed

end
